theory Spec2Isabelle
  imports Complex_Main
begin

section \<open>IEEE-754 binary32 values and arithmetic\<close>

text \<open>
  The component type of \<^verbatim>\<open>vec3\<close> is the C type \<^verbatim>\<open>float\<close>. A value of that type is
  modelled by what it denotes: a finite rational, the negative zero, an infinity or a
  NaN (payloads are not distinguished). \<open>Finite 0\<close> is the positive zero. Every operation
  computes the exact rational result and rounds it to the nearest binary32 value, ties to
  even, as the default rounding mode does; expressions of type \<^verbatim>\<open>float\<close> are evaluated
  in binary32, with no excess precision.
\<close>

datatype float = Finite rat | NegZero | PosInf | NegInf | NaN

definition pow2 :: "int \<Rightarrow> rat" where
  "pow2 k = (if 0 \<le> k then 2 ^ nat k else 1 / 2 ^ nat (- k))"

text \<open>The number of binary digits of a positive integer.\<close>

function bit_length :: "int \<Rightarrow> nat" where
  "bit_length k = (if k \<le> 0 then 0 else Suc (bit_length (k div 2)))"
  by pat_completeness auto
termination
  by (relation "measure nat") auto

declare bit_length.simps [simp del]

text \<open>\<open>ilog2 r\<close> is the exponent of a positive rational: \<open>2 ^ ilog2 r \<le> r < 2 ^ (ilog2 r + 1)\<close>.\<close>

definition ilog2 :: "rat \<Rightarrow> int" where
  "ilog2 r = (if 1 \<le> r then int (bit_length \<lfloor>r\<rfloor>) - 1
              else - int (bit_length (\<lceil>1 / r\<rceil> - 1)))"

text \<open>Rounding to the nearest integer, a tie going to the even neighbour.\<close>

definition rne :: "rat \<Rightarrow> int" where
  "rne q = (let f = \<lfloor>q\<rfloor>; d = q - of_int f in
     if d < 1 / 2 then f else if 1 / 2 < d then f + 1 else if even f then f else f + 1)"

text \<open>
  Rounding to 24 significant bits, with the exponent no smaller than \<open>-126\<close> (below it the
  subnormal numbers share the spacing \<open>2 ^ -149\<close>) and not yet bounded above.
\<close>

definition round32 :: "rat \<Rightarrow> rat" where
  "round32 r = (if r = 0 then 0 else
     let e = max (ilog2 \<bar>r\<bar>) (- 126); u = pow2 (e - 23) in of_int (rne (r / u)) * u)"

text \<open>
  The binary32 result for an exact value \<open>r\<close>: overflow gives an infinity, and a result
  that is zero takes the sign \<open>neg\<close> the operation prescribes for it.
\<close>

definition round_result :: "bool \<Rightarrow> rat \<Rightarrow> float" where
  "round_result neg r = (let q = round32 r in
     if pow2 128 \<le> \<bar>q\<bar> then (if q < 0 then NegInf else PosInf)
     else if q = 0 then (if neg then NegZero else Finite 0)
     else Finite q)"

fun is_nan :: "float \<Rightarrow> bool" where
  "is_nan NaN = True"
| "is_nan _ = False"

fun is_inf :: "float \<Rightarrow> bool" where
  "is_inf PosInf = True"
| "is_inf NegInf = True"
| "is_inf _ = False"

fun is_zero :: "float \<Rightarrow> bool" where
  "is_zero (Finite r) = (r = 0)"
| "is_zero NegZero = True"
| "is_zero _ = False"

fun signbit :: "float \<Rightarrow> bool" where
  "signbit (Finite r) = (r < 0)"
| "signbit NegZero = True"
| "signbit NegInf = True"
| "signbit _ = False"

fun valof :: "float \<Rightarrow> rat" where
  "valof (Finite r) = r"
| "valof _ = 0"

definition inf_of :: "bool \<Rightarrow> float" where
  "inf_of neg = (if neg then NegInf else PosInf)"

definition zero_of :: "bool \<Rightarrow> float" where
  "zero_of neg = (if neg then NegZero else Finite 0)"

definition fadd :: "float \<Rightarrow> float \<Rightarrow> float" where
  "fadd a b =
     (if is_nan a \<or> is_nan b then NaN
      else if is_inf a then (if is_inf b \<and> signbit a \<noteq> signbit b then NaN else a)
      else if is_inf b then b
      else round_result (signbit a \<and> signbit b) (valof a + valof b))"

fun fneg :: "float \<Rightarrow> float" where
  "fneg (Finite r) = (if r = 0 then NegZero else Finite (- r))"
| "fneg NegZero = Finite 0"
| "fneg PosInf = NegInf"
| "fneg NegInf = PosInf"
| "fneg NaN = NaN"

definition fsub :: "float \<Rightarrow> float \<Rightarrow> float" where
  "fsub a b = fadd a (fneg b)"

definition fmul :: "float \<Rightarrow> float \<Rightarrow> float" where
  "fmul a b =
     (if is_nan a \<or> is_nan b then NaN
      else if is_inf a \<or> is_inf b
        then (if is_zero a \<or> is_zero b then NaN else inf_of (signbit a \<noteq> signbit b))
      else round_result (signbit a \<noteq> signbit b) (valof a * valof b))"

definition fdiv :: "float \<Rightarrow> float \<Rightarrow> float" where
  "fdiv a b =
     (if is_nan a \<or> is_nan b then NaN
      else if is_inf a then (if is_inf b then NaN else inf_of (signbit a \<noteq> signbit b))
      else if is_inf b then zero_of (signbit a \<noteq> signbit b)
      else if is_zero b
        then (if is_zero a then NaN else inf_of (signbit a \<noteq> signbit b))
      else round_result (signbit a \<noteq> signbit b) (valof a / valof b))"

text \<open>The integer square root, two bits of the argument for each bit of the result.\<close>

function isqrt :: "int \<Rightarrow> int" where
  "isqrt n = (if n < 1 then 0 else if n < 4 then 1
     else let s = 2 * isqrt (n div 4) in if (s + 1) * (s + 1) \<le> n then s + 1 else s)"
  by pat_completeness auto
termination
  by (relation "measure nat") auto

declare isqrt.simps [simp del]

text \<open>
  The square root of a positive rational, rounded to 24 significant bits: the root lies
  in the binade of exponent \<open>ilog2 r div 2\<close>, its integer part in units of the spacing
  is \<open>isqrt\<close> of the scaled argument, and comparing with the midpoint decides the
  direction.
\<close>

definition sqrt32 :: "rat \<Rightarrow> rat" where
  "sqrt32 r = (if r \<le> 0 then 0 else
     let e = ilog2 r div 2; u = pow2 (e - 23); s = r / (u * u); n = isqrt \<lfloor>s\<rfloor>;
         m = of_int (n * n + n) + 1 / 4
     in of_int (if s < m then n else if m < s then n + 1 else if even n then n else n + 1) * u)"

fun fsqrt :: "float \<Rightarrow> float" where
  "fsqrt (Finite r) = (if r < 0 then NaN else Finite (sqrt32 r))"
| "fsqrt NegZero = NegZero"
| "fsqrt PosInf = PosInf"
| "fsqrt NegInf = NaN"
| "fsqrt NaN = NaN"

text \<open>
  A decimal literal (\<^verbatim>\<open>255.999f\<close>, or \<^verbatim>\<open>1.0\<close> converted to \<^verbatim>\<open>float\<close>) denotes the
  binary32 value nearest to it; an \<^verbatim>\<open>int\<close> converts likewise.
\<close>

definition float_lit :: "rat \<Rightarrow> float" where
  "float_lit q = round_result False q"

definition float_of_int :: "int \<Rightarrow> float" where
  "float_of_int n = round_result False (of_int n)"

text \<open>
  \<^verbatim>\<open>static_cast<int>\<close> discards the fractional part. The behaviour is undefined when the
  truncated value does not fit a 32-bit \<^verbatim>\<open>int\<close>, or for an infinity or a NaN: \<open>None\<close>.
\<close>

definition int_of_float :: "float \<Rightarrow> int option" where
  "int_of_float a = (case a of
       Finite r \<Rightarrow>
         (let t = (if 0 \<le> r then \<lfloor>r\<rfloor> else \<lceil>r\<rceil>) in
          if - 2147483648 \<le> t \<and> t \<le> 2147483647 then Some t else None)
     | NegZero \<Rightarrow> Some 0
     | _ \<Rightarrow> None)"

text \<open>
  A \<^verbatim>\<open>double\<close> is only ever obtained by widening a \<^verbatim>\<open>float\<close> (the return of
  \<^verbatim>\<open>dot\<close>), which keeps the value: it is modelled by the value it holds.
\<close>

datatype double = Widen float

instantiation float :: "{zero, one, plus, minus, uminus, times, inverse}"
begin

definition zero_float :: float where
  "zero_float = Finite 0"

definition one_float :: float where
  "one_float = Finite 1"

definition plus_float :: "float \<Rightarrow> float \<Rightarrow> float" where
  "plus_float = fadd"

definition minus_float :: "float \<Rightarrow> float \<Rightarrow> float" where
  "minus_float = fsub"

definition uminus_float :: "float \<Rightarrow> float" where
  "uminus_float = fneg"

definition times_float :: "float \<Rightarrow> float \<Rightarrow> float" where
  "times_float = fmul"

definition divide_float :: "float \<Rightarrow> float \<Rightarrow> float" where
  "divide_float = fdiv"

definition inverse_float :: "float \<Rightarrow> float" where
  "inverse_float a = fdiv (Finite 1) a"

instance ..

end

section \<open>The vector type\<close>

text \<open>
  \<^verbatim>\<open>union vec3 { float3 e; struct { float x, y, z; }; }\<close>: three cells of storage, which
  the array \<^verbatim>\<open>e\<close> and the names \<^verbatim>\<open>x\<close>, \<^verbatim>\<open>y\<close>, \<^verbatim>\<open>z\<close> both denote. The record holds the
  cells; \<open>e0\<close>, \<open>e1\<close>, \<open>e2\<close> read \<^verbatim>\<open>e[0]\<close>, \<^verbatim>\<open>e[1]\<close>, \<^verbatim>\<open>e[2]\<close>, and the named members are
  the same cells at the offsets of the anonymous struct.
\<close>

record vec3 =
  e0 :: float
  e1 :: float
  e2 :: float

definition vec3_x :: "vec3 \<Rightarrow> float" where
  "vec3_x v = e0 v"

definition vec3_y :: "vec3 \<Rightarrow> float" where
  "vec3_y v = e1 v"

definition vec3_z :: "vec3 \<Rightarrow> float" where
  "vec3_z v = e2 v"

text \<open>The constructors initialise the members \<^verbatim>\<open>x\<close>, \<^verbatim>\<open>y\<close>, \<^verbatim>\<open>z\<close>.\<close>

definition vec3_default_ctor :: vec3 where
  "vec3_default_ctor = \<lparr>e0 = float_lit 0, e1 = float_lit 0, e2 = float_lit 0\<rparr>"

definition vec3_ctor :: "float \<Rightarrow> float \<Rightarrow> float \<Rightarrow> vec3" where
  "vec3_ctor xc yc zc = \<lparr>e0 = xc, e1 = yc, e2 = zc\<rparr>"

definition vec3_copy_ctor :: "vec3 \<Rightarrow> vec3" where
  "vec3_copy_ctor rh = \<lparr>e0 = vec3_x rh, e1 = vec3_y rh, e2 = vec3_z rh\<rparr>"

text \<open>\<^verbatim>\<open>operator=\<close> and \<^verbatim>\<open>operator+=\<close> update \<^verbatim>\<open>*this\<close> and return it.\<close>

definition op_assign :: "vec3 \<Rightarrow> vec3 \<Rightarrow> vec3" where
  "op_assign this rh = this\<lparr>e0 := e0 rh, e1 := e1 rh, e2 := e2 rh\<rparr>"

definition op_plus_assign :: "vec3 \<Rightarrow> vec3 \<Rightarrow> vec3" where
  "op_plus_assign this rh =
     this\<lparr>e0 := e0 this + e0 rh, e1 := e1 this + e1 rh, e2 := e2 this + e2 rh\<rparr>"

text \<open>
  The member \<^verbatim>\<open>operator+\<close>:
  \<^verbatim>\<open>return vec3(e[0] + e[0], e[1] + e[1], e[2] + e[2]);\<close> where every \<^verbatim>\<open>e\<close> is
  \<^verbatim>\<open>this->e\<close>.
\<close>

definition op_plus :: "vec3 \<Rightarrow> vec3 \<Rightarrow> vec3" where
  "op_plus this rh = vec3_ctor (e0 this + e0 this) (e1 this + e1 this) (e2 this + e2 this)"

text \<open>
  \<^verbatim>\<open>float operator[](int i) const { return e[i]; }\<close> has no bounds check: an index
  outside \<open>0..2\<close> is undefined behaviour, \<open>None\<close>.
\<close>

definition op_index :: "vec3 \<Rightarrow> int \<Rightarrow> float option" where
  "op_index this i =
     (if i = 0 then Some (e0 this) else if i = 1 then Some (e1 this)
      else if i = 2 then Some (e2 this) else None)"

definition op_neg :: "vec3 \<Rightarrow> vec3" where
  "op_neg this = vec3_ctor (- e0 this) (- e1 this) (- e2 this)"

definition op_mul_assign :: "vec3 \<Rightarrow> float \<Rightarrow> vec3" where
  "op_mul_assign this t = this\<lparr>e0 := e0 this * t, e1 := e1 this * t, e2 := e2 this * t\<rparr>"

definition op_div_assign :: "vec3 \<Rightarrow> float \<Rightarrow> vec3" where
  "op_div_assign this t = op_mul_assign this (float_of_int 1 / t)"

definition length_squared :: "vec3 \<Rightarrow> float" where
  "length_squared this = e0 this * e0 this + e1 this * e1 this + e2 this * e2 this"

definition length_vec3 :: "vec3 \<Rightarrow> float" where
  "length_vec3 this = fsqrt (length_squared this)"

text \<open>The free operators and functions of \<^verbatim>\<open>gproVector.inl\<close>.\<close>

definition op_minus :: "vec3 \<Rightarrow> vec3 \<Rightarrow> vec3" where
  "op_minus u v = vec3_ctor (e0 u - e0 v) (e1 u - e1 v) (e2 u - e2 v)"

definition op_mul_vv :: "vec3 \<Rightarrow> vec3 \<Rightarrow> vec3" where
  "op_mul_vv u v = vec3_ctor (e0 u * e0 v) (e1 u * e1 v) (e2 u * e2 v)"

definition op_mul_sv :: "float \<Rightarrow> vec3 \<Rightarrow> vec3" where
  "op_mul_sv t v = vec3_ctor (t * e0 v) (t * e1 v) (t * e2 v)"

definition op_mul_vs :: "vec3 \<Rightarrow> float \<Rightarrow> vec3" where
  "op_mul_vs v t = op_mul_sv t v"

definition op_div :: "vec3 \<Rightarrow> float \<Rightarrow> vec3" where
  "op_div v t = op_mul_sv (float_of_int 1 / t) v"

text \<open>
  \<^verbatim>\<open>dot\<close> returns \<^verbatim>\<open>double\<close>, but its products and sums have type \<^verbatim>\<open>float\<close>: the
  binary32 result is widened on return.
\<close>

definition dot :: "vec3 \<Rightarrow> vec3 \<Rightarrow> double" where
  "dot u v = Widen (e0 u * e0 v + e1 u * e1 v + e2 u * e2 v)"

definition cross :: "vec3 \<Rightarrow> vec3 \<Rightarrow> vec3" where
  "cross u v = vec3_ctor (e1 u * e2 v - e2 u * e1 v)
                         (e2 u * e0 v - e0 u * e2 v)
                         (e0 u * e1 v - e1 u * e0 v)"

definition unit_vector :: "vec3 \<Rightarrow> vec3" where
  "unit_vector v = op_div v (length_vec3 v)"

section \<open>The function interface on caller-supplied arrays\<close>

text \<open>
  A \<^verbatim>\<open>float3\<close> parameter is a pointer to the first of three cells. Memory is a map from
  cell addresses to values; every function takes the memory, performs its writes in the
  order of the source, and returns its output pointer with the memory it leaves, so that
  overlapping arguments behave as they do in C.
\<close>

type_synonym floatv = nat

type_synonym heap = "nat \<Rightarrow> float"

definition vec3_array_ctor :: "floatv \<Rightarrow> heap \<Rightarrow> vec3" where
  "vec3_array_ctor vc h = \<lparr>e0 = h vc, e1 = h (vc + 1), e2 = h (vc + 2)\<rparr>"

definition vec3default :: "floatv \<Rightarrow> heap \<Rightarrow> floatv \<times> heap" where
  "vec3default v_out h =
     (let h1 = h(v_out + 2 := float_lit 0);
          h2 = h1(v_out + 1 := h1 (v_out + 2));
          h3 = h2(v_out := h2 (v_out + 1))
      in (v_out, h3))"

definition vec3init :: "floatv \<Rightarrow> float \<Rightarrow> float \<Rightarrow> float \<Rightarrow> heap \<Rightarrow> floatv \<times> heap" where
  "vec3init v_out xc yc zc h =
     (let h1 = h(v_out := xc);
          h2 = h1(v_out + 1 := yc);
          h3 = h2(v_out + 2 := zc)
      in (v_out, h3))"

definition vec3copy :: "floatv \<Rightarrow> floatv \<Rightarrow> heap \<Rightarrow> floatv \<times> heap" where
  "vec3copy v_out v_rh h =
     (let h1 = h(v_out := h v_rh);
          h2 = h1(v_out + 1 := h1 (v_rh + 1));
          h3 = h2(v_out + 2 := h2 (v_rh + 2))
      in (v_out, h3))"

definition vec3add :: "floatv \<Rightarrow> floatv \<Rightarrow> heap \<Rightarrow> floatv \<times> heap" where
  "vec3add v_lh_sum v_rh h =
     (let h1 = h(v_lh_sum := h v_lh_sum + h v_rh);
          h2 = h1(v_lh_sum + 1 := h1 (v_lh_sum + 1) + h1 (v_rh + 1));
          h3 = h2(v_lh_sum + 2 := h2 (v_lh_sum + 2) + h2 (v_rh + 2))
      in (v_lh_sum, h3))"

definition vec3sum :: "floatv \<Rightarrow> floatv \<Rightarrow> floatv \<Rightarrow> heap \<Rightarrow> floatv \<times> heap" where
  "vec3sum v_sum v_lh v_rh h =
     vec3init v_sum (h v_lh + h v_rh) (h (v_lh + 1) + h (v_rh + 1)) (h (v_lh + 2) + h (v_rh + 2)) h"

text \<open>The three cells a pointer designates.\<close>

definition cells :: "floatv \<Rightarrow> heap \<Rightarrow> float \<times> float \<times> float" where
  "cells v h = (h v, h (v + 1), h (v + 2))"

text \<open>Two three-cell arrays that do not overlap, as two distinct array objects never do.\<close>

definition separate :: "floatv \<Rightarrow> floatv \<Rightarrow> bool" where
  "separate p q = (p + 3 \<le> q \<or> q + 3 \<le> p)"

text \<open>The componentwise sum of two triples of cell values.\<close>

definition sum3 :: "float \<times> float \<times> float \<Rightarrow> float \<times> float \<times> float \<Rightarrow> float \<times> float \<times> float" where
  "sum3 a b = (fst a + fst b, fst (snd a) + fst (snd b), snd (snd a) + snd (snd b))"

text \<open>The three components of a vector value, to compare it with the cells of an array.\<close>

definition components :: "vec3 \<Rightarrow> float \<times> float \<times> float" where
  "components v = (e0 v, e1 v, e2 v)"

text \<open>
  The array part of \<^verbatim>\<open>testVector\<close>. The local arrays \<^verbatim>\<open>av\<close>, \<^verbatim>\<open>bv\<close>, \<^verbatim>\<open>cv\<close>, \<^verbatim>\<open>dv\<close> are
  uninitialised storage at addresses the compiler chooses: the addresses are parameters
  and the memory on entry is arbitrary.
\<close>

definition testVector_arrays :: "floatv \<Rightarrow> floatv \<Rightarrow> floatv \<Rightarrow> floatv \<Rightarrow> heap \<Rightarrow> heap" where
  "testVector_arrays av bv cv dv h =
     (let (r1, h1) = vec3default av h;
          (r2, h2) = vec3init bv (float_lit 1) (float_lit 2) (float_lit 3) h1;
          (r3, h3) = vec3init cv (float_lit 4) (float_lit 5) (float_lit 6) h2;
          (r4, h4) = vec3copy dv r3 h3;
          (r5, h5) = vec3copy av dv h4;
          (r6, h6) = vec3add dv bv h5;
          (r7, h7) = vec3sum dv bv bv h6;
          (r8, h8) = vec3sum dv cv bv h7;
          (r9, h9) = vec3add r8 av h8
      in h9)"

text \<open>
  The operator part of \<^verbatim>\<open>testVector\<close>, which starts from the array \<^verbatim>\<open>cv\<close> the first
  part has filled, and the values of \<^verbatim>\<open>a\<close>, \<^verbatim>\<open>b\<close>, \<^verbatim>\<open>c\<close>, \<^verbatim>\<open>d\<close> it ends with. (The
  function goes on to print a vector of its own, which touches none of these.)
\<close>

definition testVector_operators :: "floatv \<Rightarrow> heap \<Rightarrow> vec3 \<times> vec3 \<times> vec3 \<times> vec3" where
  "testVector_operators cv h =
     (let a = vec3_default_ctor;
          b = vec3_ctor (float_lit 1) (float_lit 2) (float_lit 3);
          c = vec3_array_ctor cv h;
          d = vec3_copy_ctor c;
          a = op_assign a d;
          d = op_plus_assign d b;
          d = op_assign d (op_plus b b);
          d = op_assign d (op_plus (op_plus c b) a)
      in (a, b, c, d))"

section \<open>Colours, rays and the image\<close>

text \<open>
  A \<^verbatim>\<open>std::ostream\<close> is the text written to it so far. \<^verbatim>\<open>out << n\<close> for an \<^verbatim>\<open>int\<close>
  appends its decimal digits, with a minus sign when it is negative.
\<close>

function show_nat :: "nat \<Rightarrow> string" where
  "show_nat n = (if n < 10 then [''0123456789'' ! n]
                 else show_nat (n div 10) @ [''0123456789'' ! (n mod 10)])"
  by pat_completeness auto
termination
  by (relation "measure id") auto

declare show_nat.simps [simp del]

definition show_int :: "int \<Rightarrow> string" where
  "show_int i = (if i < 0 then CHR ''-'' # show_nat (nat (- i)) else show_nat (nat i))"

definition newline :: char where
  "newline = CHR 0x0A"

text \<open>
  \<^verbatim>\<open>write_color\<close> appends one line to the stream. Each of its three casts is undefined
  for a product out of the range of \<^verbatim>\<open>int\<close>; the function then has no result.
\<close>

definition write_color :: "string \<Rightarrow> vec3 \<Rightarrow> string option" where
  "write_color out pixel_color =
     (case int_of_float (float_lit (255999 / 1000) * vec3_x pixel_color) of
        None \<Rightarrow> None
      | Some r \<Rightarrow>
     (case int_of_float (float_lit (255999 / 1000) * vec3_y pixel_color) of
        None \<Rightarrow> None
      | Some g \<Rightarrow>
     (case int_of_float (float_lit (255999 / 1000) * vec3_z pixel_color) of
        None \<Rightarrow> None
      | Some b \<Rightarrow>
        Some (out @ show_int r @ '' '' @ show_int g @ '' '' @ show_int b @ [newline]))))"

record ray =
  orig :: vec3
  dir :: vec3

definition ray_ctor :: "vec3 \<Rightarrow> vec3 \<Rightarrow> ray" where
  "ray_ctor origin direction = \<lparr>orig = origin, dir = direction\<rparr>"

definition ray_origin :: "ray \<Rightarrow> vec3" where
  "ray_origin r = orig r"

definition ray_direction :: "ray \<Rightarrow> vec3" where
  "ray_direction r = dir r"

definition ray_at :: "ray \<Rightarrow> float \<Rightarrow> vec3" where
  "ray_at r t = op_plus (orig r) (op_mul_sv t (dir r))"

definition ray_color :: "ray \<Rightarrow> vec3" where
  "ray_color r =
     (let unit_direction = unit_vector (ray_direction r);
          t = float_lit (1 / 2) * (vec3_y unit_direction + float_lit 1)
      in op_plus (op_mul_sv (float_lit 1 - t) (vec3_ctor (float_lit 1) (float_lit 1) (float_lit 1)))
                 (op_mul_sv t (vec3_ctor (float_lit (1 / 2)) (float_lit (7 / 10)) (float_lit 1))))"

text \<open>
  \<^verbatim>\<open>main\<close>. The image constants, then the camera, then the file: the header and the two
  nested loops. The model follows the characters written to the stream of \<^verbatim>\<open>image.ppm\<close>
  (before any translation of line ends by the platform), for a file that opens; the
  progress lines on \<^verbatim>\<open>cerr\<close> and the blank lines on \<^verbatim>\<open>stdout\<close> go to other streams.
  The loop counters are \<^verbatim>\<open>int\<close>s between \<open>-1\<close> and the image size, far from overflow.
\<close>

definition aspect_ratio :: float where
  "aspect_ratio = float_lit 16 / float_lit 9"

definition image_width :: int where
  "image_width = 400"

definition image_height :: "int option" where
  "image_height = int_of_float (float_of_int image_width / aspect_ratio)"

record camera =
  origin :: vec3
  horizontal :: vec3
  vertical :: vec3
  lower_left_corner :: vec3

definition make_camera :: camera where
  "make_camera =
     (let viewport_height = float_lit 2;
          viewport_width = aspect_ratio * viewport_height;
          focal_length = float_lit 1;
          origin = vec3_ctor (float_of_int 0) (float_of_int 0) (float_of_int 0);
          horizontal = vec3_ctor viewport_width (float_of_int 0) (float_of_int 0);
          vertical = vec3_ctor (float_of_int 0) viewport_height (float_of_int 0);
          lower_left_corner =
            op_minus (op_minus (op_minus origin (op_div horizontal (float_of_int 2)))
                               (op_div vertical (float_of_int 2)))
                     (vec3_ctor (float_of_int 0) (float_of_int 0) focal_length)
      in \<lparr>origin = origin, horizontal = horizontal, vertical = vertical,
          lower_left_corner = lower_left_corner\<rparr>)"

text \<open>
  The inner loop, \<^verbatim>\<open>for (int i = 0; i < image_width; ++i)\<close>, from the current \<open>i\<close>. Its
  body computes \<^verbatim>\<open>u\<close>, \<^verbatim>\<open>v\<close>, the ray and \<^verbatim>\<open>pixel_color\<close>, and that is all it does.
\<close>

function scan_columns :: "camera \<Rightarrow> int \<Rightarrow> int \<Rightarrow> int \<Rightarrow> string \<Rightarrow> string" where
  "scan_columns cam height j i file =
     (if i < image_width then
        let u = float_of_int i / float_of_int (image_width - 1);
            v = float_of_int j / float_of_int (height - 1);
            r = ray_ctor (origin cam)
                  (op_minus (op_plus (op_plus (lower_left_corner cam) (op_mul_sv u (horizontal cam)))
                                      (op_mul_sv v (vertical cam)))
                            (origin cam));
            pixel_color = ray_color r
        in scan_columns cam height j (i + 1) file
      else file)"
  by pat_completeness auto
termination
  by (relation "measure (\<lambda>(cam, height, j, i, file). nat (image_width - i))") auto

declare scan_columns.simps [simp del]

text \<open>The outer loop, \<^verbatim>\<open>for (int j = image_height - 1; j >= 0; --j)\<close>, from the current \<open>j\<close>.\<close>

function scan_lines :: "camera \<Rightarrow> int \<Rightarrow> int \<Rightarrow> string \<Rightarrow> string" where
  "scan_lines cam height j file =
     (if 0 \<le> j then scan_lines cam height (j - 1) (scan_columns cam height j 0 file)
      else file)"
  by pat_completeness auto
termination
  by (relation "measure (\<lambda>(cam, height, j, file). nat (j + 1))") auto

declare scan_lines.simps [simp del]

text \<open>The contents of \<^verbatim>\<open>image.ppm\<close> when \<^verbatim>\<open>main\<close> returns.\<close>

definition main_file :: "string option" where
  "main_file =
     (case image_height of
        None \<Rightarrow> None
      | Some height \<Rightarrow>
          (let cam = make_camera;
               file = ''P3'' @ [newline] @ show_int image_width @ '' '' @ show_int height
                        @ [newline] @ ''255'' @ [newline]
           in Some (scan_lines cam height (height - 1) file)))"

section \<open>The rounding model is round-to-nearest\<close>

text \<open>
  The exponent function brackets its argument between two powers of two, the rounding
  moves a value by at most half the spacing of its binade, its result is a binary32
  value (an integer of at most 24 bits times a power of two no smaller than \<open>2 ^ -149\<close>),
  and every binary32 value is left as it is.
\<close>

lemma pow2_pos: "0 < pow2 k"
  by (simp add: pow2_def)

lemma pow2_eq_powi: "pow2 k = 2 powi k"
  by (simp add: pow2_def power_int_def inverse_eq_divide power_one_over)

lemma pow2_add: "pow2 (j + k) = pow2 j * pow2 k"
  by (simp add: pow2_eq_powi power_int_add)

lemma pow2_nat: "pow2 (int n) = 2 ^ n"
  by (simp add: pow2_def)

lemma pow2_1: "pow2 1 = 2"
  by (simp add: pow2_def)

lemma pow2_mono: "j \<le> k \<Longrightarrow> pow2 j \<le> pow2 k"
  by (simp add: pow2_eq_powi power_int_increasing)

lemma pow2_less_cancel: "pow2 j < pow2 k \<Longrightarrow> j < k"
  using pow2_mono [of k j] by (cases "k \<le> j") auto

lemma bit_length_pos: "0 < k \<Longrightarrow> 0 < bit_length k"
  by (subst bit_length.simps) simp

lemma bit_length_bounds:
  "0 < k \<Longrightarrow> 2 ^ (bit_length k - 1) \<le> k \<and> k < 2 ^ bit_length k"
proof (induction k rule: bit_length.induct)
  case (1 k)
  show ?case
  proof (cases "k = 1")
    case True
    then show ?thesis by (simp add: bit_length.simps)
  next
    case False
    with 1(2) have k2: "0 < k div 2" by simp
    from 1(1) [of] 1(2) k2 have ih: "2 ^ (bit_length (k div 2) - 1) \<le> k div 2" "k div 2 < 2 ^ bit_length (k div 2)"
      by simp_all
    have bl: "bit_length k = Suc (bit_length (k div 2))"
      using 1(2) by (subst bit_length.simps) simp
    obtain m where m: "bit_length (k div 2) = Suc m"
      using bit_length_pos [OF k2] by (cases "bit_length (k div 2)") auto
    from ih m have "2 * 2 ^ m \<le> 2 * (k div 2)" by simp
    moreover have "2 * (k div 2) \<le> k" by simp
    moreover have "k < 2 * (k div 2) + 2" by presburger
    moreover from ih have "2 * (k div 2) + 2 \<le> 2 * 2 ^ bit_length (k div 2)" by simp
    ultimately show ?thesis by (simp add: bl m)
  qed
qed

lemma ilog2_bounds:
  assumes "0 < r"
  shows "pow2 (ilog2 r) \<le> r \<and> r < pow2 (ilog2 r + 1)"
proof (cases "1 \<le> r")
  case True
  define k where "k = \<lfloor>r\<rfloor>"
  have k: "0 < k" using True by (simp add: k_def)
  obtain m where m: "bit_length k = Suc m"
    using bit_length_pos [OF k] by (cases "bit_length k") auto
  from bit_length_bounds [OF k] m have b: "2 ^ m \<le> k" "k < 2 * 2 ^ m" by simp_all
  have "of_int k \<le> r" "r < of_int (k + 1)"
    unfolding k_def by linarith+
  moreover from b have "(2::rat) ^ m \<le> of_int k"
    by (metis of_int_le_iff of_int_numeral of_int_power)
  moreover from b have "k + 1 \<le> 2 * 2 ^ m" by simp
  then have "(of_int (k + 1) :: rat) \<le> 2 * 2 ^ m"
    by (metis of_int_le_iff of_int_numeral of_int_power of_int_mult)
  ultimately have "2 ^ m \<le> r" "r < 2 * 2 ^ m" by linarith+
  moreover have "ilog2 r = int m" using True m by (simp add: ilog2_def k_def)
  ultimately show ?thesis
    by (simp add: pow2_nat pow2_add pow2_1)
next
  case False
  define s where "s = 1 / r"
  define k where "k = \<lceil>s\<rceil> - 1"
  have s1: "1 < s" using False assms by (simp add: s_def)
  have k: "0 < k" using s1 by (simp add: k_def)
  obtain m where m: "bit_length k = Suc m"
    using bit_length_pos [OF k] by (cases "bit_length k") auto
  from bit_length_bounds [OF k] m have b: "2 ^ m \<le> k" "k < 2 * 2 ^ m" by simp_all
  have "of_int k < s" "s \<le> of_int (k + 1)"
    unfolding k_def by linarith+
  moreover from b have "(2::rat) ^ m \<le> of_int k"
    by (metis of_int_le_iff of_int_numeral of_int_power)
  moreover from b have "k + 1 \<le> 2 * 2 ^ m" by simp
  then have "(of_int (k + 1) :: rat) \<le> 2 * 2 ^ m"
    by (metis of_int_le_iff of_int_numeral of_int_power of_int_mult)
  ultimately have sb: "2 ^ m < s" "s \<le> 2 * 2 ^ m" by linarith+
  have il: "ilog2 r = - int (Suc m)" using False m by (simp add: ilog2_def k_def s_def)
  have r: "r = 1 / s" using assms by (simp add: s_def)
  have "1 / (2 * 2 ^ m) \<le> r"
    unfolding r using sb s1 by (simp add: frac_le)
  moreover have "r < 1 / 2 ^ m"
    unfolding r using sb s1 by (simp add: frac_less2)
  moreover have "nat (int m + 1) = Suc m"
    by simp
  then have "pow2 (- int (Suc m)) = 1 / (2 * 2 ^ m)"
    by (simp add: pow2_def)
  moreover have "pow2 (- int (Suc m) + 1) = 1 / 2 ^ m"
    by (simp add: pow2_def)
  ultimately show ?thesis by (simp add: il)
qed

lemma rne_error: "\<bar>of_int (rne q) - q\<bar> \<le> 1 / 2"
proof -
  have "of_int \<lfloor>q\<rfloor> \<le> q" "q < of_int \<lfloor>q\<rfloor> + 1"
    by linarith+
  then show ?thesis
    unfolding rne_def Let_def by (simp add: abs_le_iff)
qed

lemma rne_of_int: "rne (of_int n) = n"
  by (simp add: rne_def)

lemma round32_error:
  assumes "r \<noteq> 0"
  shows "\<bar>round32 r - r\<bar> \<le> pow2 (max (ilog2 \<bar>r\<bar>) (- 126) - 24)"
proof -
  define e where "e = max (ilog2 \<bar>r\<bar>) (- 126)"
  define u where "u = pow2 (e - 23)"
  have u: "0 < u" by (simp add: u_def pow2_pos)
  have "round32 r - r = (of_int (rne (r / u)) - r / u) * u"
    using assms u by (simp add: round32_def Let_def e_def u_def algebra_simps)
  then have "\<bar>round32 r - r\<bar> = \<bar>of_int (rne (r / u)) - r / u\<bar> * u"
    using u by (simp add: abs_mult)
  also have "\<dots> \<le> 1 / 2 * u"
    using rne_error [of "r / u"] u by (simp add: mult_right_mono)
  also have "1 / 2 * u = pow2 (e - 24)"
  proof -
    have "pow2 (e - 23) = pow2 (e - 24) * pow2 1"
      using pow2_add [of "e - 24" 1] by simp
    then show ?thesis by (simp add: u_def pow2_def)
  qed
  finally show ?thesis by (simp add: e_def)
qed

lemma rne_bound:
  assumes "\<bar>q\<bar> < of_int N"
  shows "\<bar>rne q\<bar> \<le> N"
proof -
  have "\<lfloor>q\<rfloor> < N" "- N \<le> \<lfloor>q\<rfloor>"
    using assms by (simp_all add: floor_less_iff le_floor_iff abs_less_iff)
  then show ?thesis
    by (auto simp: rne_def Let_def)
qed

lemma round32_representable:
  "\<exists>n k. round32 r = of_int n * pow2 k \<and> \<bar>n\<bar> \<le> 2 ^ 24 \<and> - 149 \<le> k"
proof (cases "r = 0")
  case True
  then have "round32 r = of_int 0 * pow2 0" by (simp add: round32_def)
  then show ?thesis by (metis abs_zero zero_le_numeral zero_le_power neg_le_iff_le neg_numeral_le_zero)
next
  case False
  define e where "e = max (ilog2 \<bar>r\<bar>) (- 126)"
  define u where "u = pow2 (e - 23)"
  have u: "0 < u" by (simp add: u_def pow2_pos)
  from False have "\<bar>r\<bar> < pow2 (ilog2 \<bar>r\<bar> + 1)"
    using ilog2_bounds [of "\<bar>r\<bar>"] by simp
  also have "\<dots> \<le> pow2 (e + 1)"
    by (rule pow2_mono) (simp add: e_def)
  also have "pow2 (e + 1) = u * 2 ^ 24"
  proof -
    have "e + 1 = (e - 23) + 24" by simp
    then have "pow2 (e + 1) = pow2 (e - 23) * pow2 24"
      by (simp only: pow2_add)
    then show ?thesis by (simp add: u_def pow2_nat [of 24, simplified])
  qed
  finally have "\<bar>r / u\<bar> < of_int (2 ^ 24)"
    using u by (simp add: abs_divide pos_divide_less_eq mult.commute)
  then have "\<bar>rne (r / u)\<bar> \<le> 2 ^ 24"
    by (rule rne_bound)
  moreover have "round32 r = of_int (rne (r / u)) * pow2 (e - 23)"
    using False by (simp add: round32_def Let_def e_def u_def)
  moreover have "- 149 \<le> e - 23" by (simp add: e_def)
  ultimately show ?thesis by blast
qed

lemma round32_exact:
  assumes "\<bar>n\<bar> < 2 ^ 24" "- 149 \<le> k"
  shows "round32 (of_int n * pow2 k) = of_int n * pow2 k"
proof (cases "n = 0")
  case True
  then show ?thesis by (simp add: round32_def)
next
  case False
  define r where "r = (of_int n :: rat) * pow2 k"
  define e where "e = max (ilog2 \<bar>r\<bar>) (- 126)"
  define u where "u = pow2 (e - 23)"
  have u: "0 < u" by (simp add: u_def pow2_pos)
  have r0: "r \<noteq> 0" using False pow2_pos [of k] by (simp add: r_def)
  have "(of_int \<bar>n\<bar> :: rat) < of_int (2 ^ 24)"
    using assms(1) by (simp only: of_int_less_iff)
  then have "\<bar>r\<bar> < 2 ^ 24 * pow2 k"
    using pow2_pos [of k] by (simp add: r_def abs_mult)
  also have "2 ^ 24 * pow2 k = pow2 (24 + k)"
    using pow2_add [of 24 k] by (simp add: pow2_def)
  finally have "pow2 (ilog2 \<bar>r\<bar>) < pow2 (24 + k)"
    using ilog2_bounds [of "\<bar>r\<bar>"] r0 by simp
  then have "ilog2 \<bar>r\<bar> < 24 + k" by (rule pow2_less_cancel)
  with assms(2) have ek: "e - 23 \<le> k" by (simp add: e_def)
  define j where "j = nat (k - (e - 23))"
  have "pow2 k = pow2 (e - 23) * pow2 (int j)"
    using ek pow2_add [of "e - 23" "int j"] by (simp add: j_def)
  then have "r / u = of_int (n * 2 ^ j)"
    using u by (simp add: r_def u_def pow2_nat)
  then have "rne (r / u) = n * 2 ^ j"
    by (simp only: rne_of_int)
  then have "round32 r = of_int (n * 2 ^ j) * u"
    using r0 by (simp add: round32_def Let_def e_def u_def)
  also have "\<dots> = r"
    using \<open>r / u = of_int (n * 2 ^ j)\<close> u by (simp add: field_simps)
  finally show ?thesis by (simp add: r_def)
qed


text \<open>The integer square root is the floor of the root.\<close>

lemma isqrt_bounds:
  "0 \<le> n \<Longrightarrow> 0 \<le> isqrt n \<and> isqrt n * isqrt n \<le> n \<and> n < (isqrt n + 1) * (isqrt n + 1)"
proof (induction n rule: isqrt.induct)
  case (1 n)
  show ?case
  proof (cases "n < 4")
    case True
    then show ?thesis using 1(2) by (subst (1 2 3 4 5) isqrt.simps) auto
  next
    case False
    define t where "t = isqrt (n div 4)"
    from False 1 have ih: "0 \<le> t" "t * t \<le> n div 4" "n div 4 < (t + 1) * (t + 1)"
      by (simp_all add: t_def)
    have "4 * (n div 4) \<le> n" "n < 4 * (n div 4) + 4" by presburger+
    with ih have lo: "(2 * t) * (2 * t) \<le> n" and hi: "n < (2 * t + 2) * (2 * t + 2)"
      by (simp_all add: algebra_simps)
    have eq: "isqrt n = (if (2 * t + 1) * (2 * t + 1) \<le> n then 2 * t + 1 else 2 * t)"
      using False by (subst isqrt.simps) (simp add: Let_def t_def)
    show ?thesis
      using lo hi ih(1) by (auto simp: eq algebra_simps)
  qed
qed


text \<open>
  The rounded square root is within half a spacing \<open>u\<close> of the root: the argument lies
  between the squares of \<open>sqrt32 r - u / 2\<close> and \<open>sqrt32 r + u / 2\<close>.
\<close>

lemma sqrt32_bracket:
  assumes "0 < r"
  defines "u \<equiv> pow2 (ilog2 r div 2 - 23)"
  shows "u / 2 \<le> sqrt32 r \<and> (sqrt32 r - u / 2) * (sqrt32 r - u / 2) \<le> r
         \<and> r \<le> (sqrt32 r + u / 2) * (sqrt32 r + u / 2)"
proof -
  define s where "s = r / (u * u)"
  define n where "n = isqrt \<lfloor>s\<rfloor>"
  define N where "N = (of_int n :: rat)"
  define c where "c = (if s < N * N + N + 1 / 4 then N
                       else if N * N + N + 1 / 4 < s then N + 1
                       else if even n then N else N + 1)"
  have u: "0 < u" by (simp add: u_def pow2_pos)
  have r: "r = s * (u * u)" using u by (simp add: s_def)
  have "u * u = pow2 ((ilog2 r div 2 - 23) + (ilog2 r div 2 - 23))"
    by (simp only: pow2_add u_def)
  also have "\<dots> \<le> pow2 (ilog2 r)"
    by (rule pow2_mono) presburger
  also have "\<dots> \<le> r"
    using ilog2_bounds [OF assms(1)] by simp
  finally have s1: "1 \<le> s"
    using u by (simp add: s_def)
  then have fl: "1 \<le> \<lfloor>s\<rfloor>" by simp
  then have b: "0 \<le> n" "n * n \<le> \<lfloor>s\<rfloor>" "\<lfloor>s\<rfloor> < (n + 1) * (n + 1)"
    using isqrt_bounds [of "\<lfloor>s\<rfloor>"] by (simp_all add: n_def)
  have n1: "1 \<le> n"
  proof (rule ccontr)
    assume "\<not> 1 \<le> n"
    with b(1) have "n = 0" by simp
    with b(3) fl show False by simp
  qed
  then have N1: "1 \<le> N" by (simp add: N_def)
  have "of_int (n * n) \<le> (of_int \<lfloor>s\<rfloor> :: rat)"
    using b(2) by (simp only: of_int_le_iff)
  then have lo: "N * N \<le> s"
    by (simp add: N_def) linarith
  have "\<lfloor>s\<rfloor> + 1 \<le> (n + 1) * (n + 1)" using b(3) by simp
  then have "(of_int (\<lfloor>s\<rfloor> + 1) :: rat) \<le> of_int ((n + 1) * (n + 1))"
    by (simp only: of_int_le_iff)
  then have hi: "s < (N + 1) * (N + 1)"
    by (simp add: N_def) linarith
  have c1: "1 \<le> c" using N1 by (simp add: c_def)
  have cs: "(c - 1 / 2) * (c - 1 / 2) \<le> s \<and> s \<le> (c + 1 / 2) * (c + 1 / 2)"
    using lo hi N1 by (auto simp: c_def algebra_simps)
  have q: "sqrt32 r = c * u"
    using assms(1) by (simp add: sqrt32_def Let_def c_def N_def n_def s_def u_def algebra_simps)
  have "(c * u - u / 2) * (c * u - u / 2) = (c - 1 / 2) * (c - 1 / 2) * (u * u)"
    by (simp add: algebra_simps)
  also have "\<dots> \<le> s * (u * u)"
    using cs u by (simp add: mult_right_mono)
  finally have A: "(c * u - u / 2) * (c * u - u / 2) \<le> r" by (simp add: r [symmetric])
  have "s * (u * u) \<le> (c + 1 / 2) * (c + 1 / 2) * (u * u)"
    using cs u by (simp add: mult_right_mono)
  also have "\<dots> = (c * u + u / 2) * (c * u + u / 2)"
    by (simp add: algebra_simps)
  finally have B: "r \<le> (c * u + u / 2) * (c * u + u / 2)" by (simp add: r [symmetric])
  have "1 / 2 * u \<le> c * u"
    using c1 u by (intro mult_right_mono) simp_all
  then have C: "u / 2 \<le> c * u" by simp
  from A B C show ?thesis by (simp add: q)
qed

section \<open>Evaluating the arithmetic\<close>

text \<open>Small integers are binary32 values, and their sums are exact.\<close>

lemma float_lit_small:
  "float_lit 0 = Finite 0" "float_lit 1 = Finite 1" "float_lit 2 = Finite 2"
  "float_lit 3 = Finite 3" "float_lit 4 = Finite 4" "float_lit 5 = Finite 5"
  "float_lit 6 = Finite 6"
  by code_simp+

lemma float_sums:
  "Finite 4 + Finite 1 = Finite 5" "Finite 5 + Finite 2 = Finite 7"
  "Finite 6 + Finite 3 = Finite 9" "Finite 5 + Finite 4 = Finite 9"
  "Finite 7 + Finite 5 = Finite 12" "Finite 9 + Finite 6 = Finite 15"
  by code_simp+

text \<open>
  The literals of the program that are not binary32 values, and the two that decide the
  image height: \<^verbatim>\<open>16.0f / 9.0f\<close> rounds up, and \<^verbatim>\<open>400 / aspect_ratio\<close>, a little
  below 225, rounds to 225.
\<close>

lemma float_lit_255_999: "float_lit (255999 / 1000) = Finite (16777150 / 65536)"
  by code_simp

lemma float_lit_0_7: "float_lit (7 / 10) = Finite (11744051 / 16777216)"
  by code_simp

lemma aspect_ratio_value: "aspect_ratio = Finite (14913081 / 8388608)"
  by code_simp

lemma image_height_value: "image_height = Some 225"
  by code_simp

lemma show_int_values:
  "show_int image_width = ''400''" "show_int 225 = ''225''" "show_int 255 = ''255''"
  by code_simp+

section \<open>The array functions, cell by cell\<close>

lemma separate_sym: "separate p q \<Longrightarrow> separate q p"
  by (auto simp: separate_def)

lemma fst_ops:
  "fst (vec3default v h) = v" "fst (vec3init v xc yc zc h) = v" "fst (vec3copy v w h) = v"
  "fst (vec3add v w h) = v" "fst (vec3sum v u w h) = v"
  by (simp_all add: vec3default_def vec3init_def vec3copy_def vec3add_def vec3sum_def Let_def)

lemma cells_vec3default:
  "cells v (snd (vec3default v h)) = (float_lit 0, float_lit 0, float_lit 0)"
  by (simp add: vec3default_def cells_def Let_def)

lemma cells_vec3default_frame:
  "separate v w \<Longrightarrow> cells w (snd (vec3default v h)) = cells w h"
  by (auto simp: vec3default_def cells_def Let_def separate_def)

lemma cells_vec3init: "cells v (snd (vec3init v xc yc zc h)) = (xc, yc, zc)"
  by (simp add: vec3init_def cells_def Let_def)

lemma cells_vec3init_frame:
  "separate v w \<Longrightarrow> cells w (snd (vec3init v xc yc zc h)) = cells w h"
  by (auto simp: vec3init_def cells_def Let_def separate_def)

lemma cells_vec3copy: "separate v w \<Longrightarrow> cells v (snd (vec3copy v w h)) = cells w h"
  by (auto simp: vec3copy_def cells_def Let_def separate_def)

lemma cells_vec3copy_frame:
  "separate v u \<Longrightarrow> cells u (snd (vec3copy v w h)) = cells u h"
  by (auto simp: vec3copy_def cells_def Let_def separate_def)

lemma cells_vec3add:
  "separate v w \<Longrightarrow> cells v (snd (vec3add v w h)) = sum3 (cells v h) (cells w h)"
  by (auto simp: vec3add_def cells_def Let_def separate_def sum3_def)

lemma cells_vec3add_frame:
  "separate v u \<Longrightarrow> cells u (snd (vec3add v w h)) = cells u h"
  by (auto simp: vec3add_def cells_def Let_def separate_def)

text \<open>\<^verbatim>\<open>vec3sum\<close> reads both operands before it writes: its result needs no separation.\<close>

lemma cells_vec3sum: "cells v (snd (vec3sum v u w h)) = sum3 (cells u h) (cells w h)"
  by (simp add: vec3sum_def vec3init_def cells_def Let_def sum3_def)

lemma cells_vec3sum_frame:
  "separate v t \<Longrightarrow> cells t (snd (vec3sum v u w h)) = cells t h"
  by (auto simp: vec3sum_def vec3init_def cells_def Let_def separate_def)

lemmas cells_ops =
  cells_vec3default cells_vec3default_frame cells_vec3init cells_vec3init_frame
  cells_vec3copy cells_vec3copy_frame cells_vec3add cells_vec3add_frame
  cells_vec3sum cells_vec3sum_frame

text \<open>
  Four of the five array functions write what the corresponding constructor or operator
  yields on the vectors made from the same arrays: default initialisation, initialisation
  from components, copy and sum in place.
\<close>

lemma vec3default_matches_default_ctor:
  "cells v (snd (vec3default v h)) = components vec3_default_ctor"
  by (simp add: cells_vec3default components_def vec3_default_ctor_def)

lemma vec3init_matches_ctor:
  "cells v (snd (vec3init v xc yc zc h)) = components (vec3_ctor xc yc zc)"
  by (simp add: cells_vec3init components_def vec3_ctor_def)

lemma vec3copy_matches_copies:
  assumes "separate v w"
  shows "cells v (snd (vec3copy v w h)) = components (vec3_array_ctor w h)"
    and "cells v (snd (vec3copy v w h)) = components (vec3_copy_ctor (vec3_array_ctor w h))"
    and "cells v (snd (vec3copy v w h)) = components (op_assign this (vec3_array_ctor w h))"
  using cells_vec3copy [OF assms, of h]
  by (simp_all add: components_def vec3_array_ctor_def vec3_copy_ctor_def
        op_assign_def vec3_x_def vec3_y_def vec3_z_def cells_def)

lemma vec3add_matches_op_plus_assign:
  assumes "separate v w"
  shows "cells v (snd (vec3add v w h))
           = components (op_plus_assign (vec3_array_ctor v h) (vec3_array_ctor w h))"
  using cells_vec3add [OF assms, of h]
  by (simp add: components_def vec3_array_ctor_def op_plus_assign_def sum3_def cells_def)

section \<open>The loops of main\<close>

lemma scan_columns_keeps_file: "scan_columns cam height j i f = f"
proof (induction cam height j i f rule: scan_columns.induct)
  case (1 cam height j i f)
  show ?case
  proof (cases "i < image_width")
    case True
    with 1 show ?thesis
      by (subst scan_columns.simps) (simp add: Let_def)
  next
    case False
    then show ?thesis
      by (subst scan_columns.simps) simp
  qed
qed

lemma scan_lines_keeps_file: "scan_lines cam height j f = f"
proof (induction cam height j f rule: scan_lines.induct)
  case (1 cam height j f)
  show ?case
  proof (cases "0 \<le> j")
    case True
    with 1 show ?thesis
      by (subst scan_lines.simps) (simp add: scan_columns_keeps_file)
  next
    case False
    then show ?thesis
      by (subst scan_lines.simps) simp
  qed
qed

section \<open>The operator part of the test\<close>

text \<open>The result of \<^verbatim>\<open>operator+\<close> does not depend on its right operand.\<close>

lemma op_plus_ignores_right_operand: "op_plus this rh = op_plus this rh'"
  by (simp add: op_plus_def)

text \<open>
  \<^verbatim>\<open>testVector\<close> documents its last two assignments as \<^verbatim>\<open>d = b + b\<close> giving
  \<open>(2, 4, 6)\<close> and \<^verbatim>\<open>d = c + b + a\<close> giving \<open>(9, 12, 15)\<close>. With \<open>c = (4, 5, 6)\<close> read
  from the array, the second one leaves \<open>c\<close> doubled twice in \<open>d\<close>.
\<close>

lemma float_doublings:
  "Finite 1 + Finite 1 = Finite 2" "Finite 2 + Finite 2 = Finite 4"
  "Finite 3 + Finite 3 = Finite 6" "Finite 4 + Finite 4 = Finite 8"
  "Finite 5 + Finite 5 = Finite 10" "Finite 6 + Finite 6 = Finite 12"
  "Finite 8 + Finite 8 = Finite 16" "Finite 10 + Finite 10 = Finite 20"
  "Finite 12 + Finite 12 = Finite 24"
  by code_simp+

lemma testVector_operators_final:
  assumes "cells cv h = (Finite 4, Finite 5, Finite 6)"
  shows "testVector_operators cv h =
     (\<lparr>e0 = Finite 4, e1 = Finite 5, e2 = Finite 6\<rparr>,
      \<lparr>e0 = Finite 1, e1 = Finite 2, e2 = Finite 3\<rparr>,
      \<lparr>e0 = Finite 4, e1 = Finite 5, e2 = Finite 6\<rparr>,
      \<lparr>e0 = Finite 16, e1 = Finite 20, e2 = Finite 24\<rparr>)"
  using assms
  by (simp add: testVector_operators_def Let_def cells_def vec3_default_ctor_def vec3_ctor_def
        vec3_array_ctor_def vec3_copy_ctor_def vec3_x_def vec3_y_def vec3_z_def op_assign_def
        op_plus_assign_def op_plus_def float_lit_small float_doublings)

section \<open>The claims\<close>

text \<open>
  C1. The claim: for all \<open>a\<close> and \<open>b\<close>, \<^verbatim>\<open>a + b\<close> is the vector of the componentwise sums
  of \<open>a\<close> and \<open>b\<close>. At \<open>a = (1, 2, 3)\<close> and \<open>b = (4, 5, 6)\<close> the operator returns
  \<open>(2, 4, 6)\<close>, the left operand doubled, while the componentwise sums are \<open>(5, 7, 9)\<close>.
\<close>

theorem op_plus_doubles_left_operand:
  "op_plus (vec3_ctor (float_lit 1) (float_lit 2) (float_lit 3))
           (vec3_ctor (float_lit 4) (float_lit 5) (float_lit 6))
     = vec3_ctor (Finite 2) (Finite 4) (Finite 6)
   \<and> vec3_ctor (float_lit 1 + float_lit 4) (float_lit 2 + float_lit 5) (float_lit 3 + float_lit 6)
     = vec3_ctor (Finite 5) (Finite 7) (Finite 9)"
  by code_simp

text \<open>
  C2. The claim: the file begins with the lines \<^verbatim>\<open>P3\<close>, \<^verbatim>\<open>400 225\<close>, \<^verbatim>\<open>255\<close>, and
  400 \<times> 225 pixel lines follow. The header is as claimed, the height being 225 in binary32
  arithmetic; but the loops only compute each colour, \<^verbatim>\<open>write_color\<close> is never called,
  and the file ends with the header.
\<close>

theorem main_file_is_header_only:
  "main_file = Some (''P3'' @ [newline] @ ''400 225'' @ [newline] @ ''255'' @ [newline])"
  by (simp add: main_file_def image_height_value scan_lines_keeps_file show_int_values)

text \<open>
  C3. The claim: \<^verbatim>\<open>ray_color\<close> returns \<open>(1 - t) (1, 1, 1) + t (0.5, 0.7, 1.0)\<close> for
  \<open>t = 0.5 (y + 1)\<close>, \<open>y\<close> the second component of the normalised direction. For the
  direction \<open>(0, 1, 0)\<close>, \<open>t\<close> is 1 and the interpolated colour is \<open>(0.5, 0.7, 1.0)\<close>; the
  function returns \<open>(0, 0, 0)\<close>, its first term doubled by \<^verbatim>\<open>operator+\<close>.
\<close>

theorem ray_color_straight_up:
  "ray_color (ray_ctor (vec3_ctor (float_lit 0) (float_lit 0) (float_lit 0))
                       (vec3_ctor (float_lit 0) (float_lit 1) (float_lit 0)))
     = vec3_ctor (Finite 0) (Finite 0) (Finite 0)
   \<and> float_lit (1 / 2)
       * (vec3_y (unit_vector (vec3_ctor (float_lit 0) (float_lit 1) (float_lit 0))) + float_lit 1)
     = Finite 1
   \<and> vec3_ctor ((float_lit 1 - Finite 1) * float_lit 1 + Finite 1 * float_lit (1 / 2))
               ((float_lit 1 - Finite 1) * float_lit 1 + Finite 1 * float_lit (7 / 10))
               ((float_lit 1 - Finite 1) * float_lit 1 + Finite 1 * float_lit 1)
     = vec3_ctor (Finite (1 / 2)) (Finite (11744051 / 16777216)) (Finite 1)"
  by code_simp

text \<open>
  C4. The claim: the cells \<^verbatim>\<open>vec3sum(out, a, b)\<close> writes equal the components of
  \<^verbatim>\<open>a + b\<close>. With \<open>a = (1, 2, 3)\<close> at address 0 and \<open>b = (4, 5, 6)\<close> at address 3,
  \<^verbatim>\<open>vec3sum\<close> writes \<open>(5, 7, 9)\<close> and the operator, on the vectors made from the same
  arrays, returns \<open>(2, 4, 6)\<close>.
\<close>

theorem vec3sum_differs_from_op_plus:
  "(let h = snd (vec3init 3 (float_lit 4) (float_lit 5) (float_lit 6)
                  (snd (vec3init 0 (float_lit 1) (float_lit 2) (float_lit 3) (\<lambda>a. NaN))))
    in cells 6 (snd (vec3sum 6 0 3 h)) = (Finite 5, Finite 7, Finite 9)
     \<and> op_plus (vec3_array_ctor 0 h) (vec3_array_ctor 3 h)
         = vec3_ctor (Finite 2) (Finite 4) (Finite 6))"
  by code_simp

text \<open>
  C5. The claim: \<^verbatim>\<open>a + b\<close> equals \<^verbatim>\<open>b + a\<close> within floating-point tolerance. At
  \<open>a = (1, 2, 3)\<close> and \<open>b = (4, 5, 6)\<close>, \<^verbatim>\<open>a + b\<close> is \<open>(2, 4, 6)\<close> and \<^verbatim>\<open>b + a\<close> is
  \<open>(8, 10, 12)\<close>: each component differs by 6.
\<close>

theorem op_plus_not_commutative:
  "op_plus (vec3_ctor (float_lit 1) (float_lit 2) (float_lit 3))
           (vec3_ctor (float_lit 4) (float_lit 5) (float_lit 6))
     = vec3_ctor (Finite 2) (Finite 4) (Finite 6)
   \<and> op_plus (vec3_ctor (float_lit 4) (float_lit 5) (float_lit 6))
             (vec3_ctor (float_lit 1) (float_lit 2) (float_lit 3))
     = vec3_ctor (Finite 8) (Finite 10) (Finite 12)
   \<and> op_minus (vec3_ctor (Finite 8) (Finite 10) (Finite 12))
              (vec3_ctor (Finite 2) (Finite 4) (Finite 6))
     = vec3_ctor (Finite 6) (Finite 6) (Finite 6)"
  by code_simp

text \<open>
  C6. After the array part of \<^verbatim>\<open>testVector\<close>, whatever the memory held on entry and
  wherever the four arrays lie, as long as they are separate, the array \<^verbatim>\<open>dv\<close> holds
  \<open>(9, 12, 15)\<close>.
\<close>

theorem testVector_arrays_final_d:
  assumes "separate av bv" "separate av cv" "separate av dv"
    "separate bv cv" "separate bv dv" "separate cv dv"
  shows "cells dv (testVector_arrays av bv cv dv h) = (Finite 9, Finite 12, Finite 15)"
proof -
  note sep = assms assms [THEN separate_sym]
  show ?thesis
    by (simp add: testVector_arrays_def Let_def split_beta fst_ops cells_ops sep sum3_def
          float_lit_small float_sums)
qed

theorem testVector_arrays_final_d_witness:
  "separate 0 3 \<and> separate 0 6 \<and> separate 0 9 \<and> separate 3 6 \<and> separate 3 9 \<and> separate 6 9
   \<and> cells 9 (testVector_arrays 0 3 6 9 (\<lambda>a. NaN)) = (Finite 9, Finite 12, Finite 15)"
  using testVector_arrays_final_d [of 0 3 6 9 "\<lambda>a. NaN"]
  by (simp add: separate_def)

text \<open>
  C7. For every vector \<open>v\<close>, \<^verbatim>\<open>dot(v, v)\<close> is the value of \<^verbatim>\<open>v.length_squared()\<close>,
  widened to \<^verbatim>\<open>double\<close>: both evaluate the same binary32 expression, the sum of the
  products of each component with itself.
\<close>

theorem dot_self_is_length_squared:
  "dot v v = Widen (length_squared v)
   \<and> length_squared v = e0 v * e0 v + e1 v * e1 v + e2 v * e2 v"
  by (simp add: dot_def length_squared_def)

text \<open>
  C8. For all scalars \<open>xc\<close>, \<open>yc\<close>, \<open>zc\<close>, the vector constructed from them reads back
  \<open>xc\<close>, \<open>yc\<close>, \<open>zc\<close> through the names \<^verbatim>\<open>x\<close>, \<^verbatim>\<open>y\<close>, \<^verbatim>\<open>z\<close>, and the same values through
  the indices 0, 1, 2.
\<close>

theorem named_and_indexed_access_agree:
  "vec3_x (vec3_ctor xc yc zc) = xc \<and> op_index (vec3_ctor xc yc zc) 0 = Some xc
   \<and> vec3_y (vec3_ctor xc yc zc) = yc \<and> op_index (vec3_ctor xc yc zc) 1 = Some yc
   \<and> vec3_z (vec3_ctor xc yc zc) = zc \<and> op_index (vec3_ctor xc yc zc) 2 = Some zc"
  by (simp add: vec3_x_def vec3_y_def vec3_z_def vec3_ctor_def op_index_def)

text \<open>
  C9. For all vectors \<open>u\<close> and \<open>v\<close>, \<^verbatim>\<open>cross(u, v)\<close> is the right-handed cross product
  \<open>(u.y v.z - u.z v.y, u.z v.x - u.x v.z, u.x v.y - u.y v.x)\<close>, each product and difference
  a binary32 operation.
\<close>

theorem cross_is_right_handed_product:
  "cross u v = vec3_ctor (vec3_y u * vec3_z v - vec3_z u * vec3_y v)
                         (vec3_z u * vec3_x v - vec3_x u * vec3_z v)
                         (vec3_x u * vec3_y v - vec3_y u * vec3_x v)"
  by (simp add: cross_def vec3_x_def vec3_y_def vec3_z_def)

text \<open>
  C10. For the colour \<open>(1, 1, 1)\<close>, \<^verbatim>\<open>write_color\<close> appends the line \<^verbatim>\<open>255 255 255\<close> to
  the stream: \<^verbatim>\<open>255.999f\<close> is the binary32 value \<open>16777150 / 65536\<close>, its product with
  1 is itself, and the cast truncates it to 255.
\<close>

theorem write_color_white:
  "write_color out (vec3_ctor (float_lit 1) (float_lit 1) (float_lit 1))
     = Some (out @ ''255 255 255'' @ [newline])"
proof -
  have "int_of_float (float_lit (255999 / 1000) * float_lit 1) = Some 255"
    by code_simp
  then show ?thesis
    by (simp add: write_color_def vec3_x_def vec3_y_def vec3_z_def vec3_ctor_def show_int_values)
qed

end
